theory Spec2Isabelle
  imports Main "HOL-Library.Word"
begin

section \<open>Data model of the Odoo XML-RPC client\<close>

text \<open>
  Go's \<open>interface{}\<close> holds a value together with its dynamic type. Two interface values
  are equal only when the dynamic types agree, and a type assertion \<open>x.(T)\<close> panics when
  the dynamic type is not \<open>T\<close>. The constructors below are the dynamic types that occur in
  \<open>odoo.go\<close> and in decoded XML-RPC responses: \<open>VInt\<close> is Go's \<open>int\<close> (the type an untyped
  integer constant takes when it is converted to \<open>interface{}\<close>), \<open>VInt64\<close> is \<open>int64\<close>,
  \<open>VList\<close> is \<open>[]interface{}\<close>, \<open>VMap\<close> is \<open>map[string]interface{}\<close> (as an association
  list), \<open>VArgs\<close> is the named slice type \<open>Args\<close>. A \<open>float64\<close> is kept as its bit pattern.
\<close>

datatype val =
    VNil
  | VBool bool
  | VInt "64 word"
  | VInt64 "64 word"
  | VFloat64 "64 word"
  | VString string
  | VTime string
  | VList "val list"
  | VMap "(string \<times> val) list"
  | VArgs "val list"

text \<open>\<open>type Args []interface{}\<close> and \<open>type Domain []interface{}\<close>.\<close>

type_synonym Args = "val list"
type_synonym Domain = "val list"

text \<open>\<open>ClientConfig\<close> of \<open>errors.go\<close>; the pointer to it is taken to be non-nil.\<close>

record ClientConfig =
  Url :: string
  Db :: string
  Username :: string
  Password :: string

text \<open>
  The three error types of \<open>errors.go\<close>, and the errors of the transport library, which are
  opaque to this package. An \<open>error\<close> interface value is an \<open>error option\<close>, \<open>None\<close> being nil.
\<close>

datatype error =
    ClientAuthError ClientConfig
  | InvalidConfigError ClientConfig
  | InvalidContextError
  | TransportError string

text \<open>The run-time panics the package can raise.\<close>

datatype fault = TypeAssertionFault | NilPointerFault

text \<open>
  A \<open>*xmlrpc.Client\<close> is identified by the URL it was opened on; a nil pointer is \<open>None\<close>.
  The transport library and the remote server are outside the package: they are the
  parameter \<open>env\<close>. Every \<open>Call\<close> and \<open>Close\<close> issued on a handle is appended to a trace,
  which the environment may consult to answer.
\<close>

datatype xmlrpc_client = XmlrpcClient string

datatype event =
    RpcCall xmlrpc_client string "val list"
  | RpcClose xmlrpc_client

record env =
  xmlrpc_NewClient :: "string \<Rightarrow> xmlrpc_client option \<times> error option"
  xmlrpc_Call :: "event list \<Rightarrow> xmlrpc_client \<Rightarrow> string \<Rightarrow> val list \<Rightarrow> val \<times> error option"
  xmlrpc_Close :: "event list \<Rightarrow> xmlrpc_client \<Rightarrow> error option"

record Client =
  cfg :: ClientConfig
  uid :: "64 word"
  auth :: bool
  common :: "xmlrpc_client option"
  object :: "xmlrpc_client option"

section \<open>Operations\<close>

definition IsValid :: "ClientConfig \<Rightarrow> bool" where
  "IsValid config \<longleftrightarrow>
     Url config \<noteq> [] \<and> Db config \<noteq> [] \<and> Username config \<noteq> [] \<and> Password config \<noteq> []"

definition OpAND :: string where
  "OpAND = ''&''"

definition OpOR :: string where
  "OpOR = ''|''"

definition Clause :: "string \<Rightarrow> string \<Rightarrow> val \<Rightarrow> val" where
  "Clause field op values = VList [VString field, VString op, values]"

text \<open>
  \<open>return Domain{clauses}\<close>: a composite literal with the single element \<open>clauses\<close>, the
  variadic parameter of type \<open>[]interface{}\<close>.
\<close>

definition NewDomain :: "val list \<Rightarrow> Domain" where
  "NewDomain clauses = [VList clauses]"

definition isAuthenticated :: "Client \<Rightarrow> bool" where
  "isAuthenticated client \<longleftrightarrow> uid client \<noteq> 0 \<and> auth client"

definition getArgs :: "Client \<Rightarrow> Args" where
  "getArgs client =
     (if isAuthenticated client
      then [VString (Db (cfg client)), VInt64 (uid client), VString (Password (cfg client))]
      else [VString (Db (cfg client)), VString (Username (cfg client)),
            VString (Password (cfg client)), VString []])"

text \<open>
  \<open>call\<close> returns the decoded result and the error of \<open>c.Call\<close>, and the extended trace.
  Calling through a nil handle dereferences it.
\<close>

definition call ::
  "env \<Rightarrow> event list \<Rightarrow> xmlrpc_client option \<Rightarrow> string \<Rightarrow> val list
     \<Rightarrow> fault + ((val \<times> error option) \<times> event list)" where
  "call e tr c method args =
     (case c of
        None \<Rightarrow> Inl NilPointerFault
      | Some h \<Rightarrow> Inr (xmlrpc_Call e tr h method args, tr @ [RpcCall h method args]))"

definition commonCall ::
  "env \<Rightarrow> Client \<Rightarrow> event list \<Rightarrow> string \<Rightarrow> Args
     \<Rightarrow> fault + ((val \<times> error option) \<times> event list)" where
  "commonCall e client tr method args = call e tr (common client) method args"

definition objectCall ::
  "env \<Rightarrow> Client \<Rightarrow> event list \<Rightarrow> string \<Rightarrow> Args
     \<Rightarrow> fault + ((val \<times> error option) \<times> event list)" where
  "objectCall e client tr method args = call e tr (object client) method args"

text \<open>
  \<open>Authenticate\<close>. The statement \<open>if uid, err := ...; uid != 0 && err == nil\<close> declares
  new variables \<open>uid\<close> and \<open>err\<close> whose scope is the \<open>if\<close> and its \<open>else\<close>: they are
  \<open>uid'\<close> and \<open>err'\<close> here, and the assignment in the \<open>else\<close> branch is to \<open>err'\<close>. The
  function returns the outer \<open>err\<close>. \<open>uid != 0\<close> compares an \<open>interface{}\<close> with the
  constant \<open>0\<close>, that is with the \<open>int\<close> zero.
\<close>

definition Authenticate ::
  "env \<Rightarrow> Client \<Rightarrow> event list \<Rightarrow> fault + (error option \<times> Client \<times> event list)" where
  "Authenticate e client tr =
     (let err = None in
      if \<not> isAuthenticated client then
        (case commonCall e client tr ''authenticate'' (getArgs client) of
           Inl f \<Rightarrow> Inl f
         | Inr ((uid', err'), tr') \<Rightarrow>
             if uid' \<noteq> VInt 0 \<and> err' = None then
               (case uid' of
                  VInt64 n \<Rightarrow> Inr (err, client\<lparr>uid := n, auth := True\<rparr>, tr')
                | _ \<Rightarrow> Inl TypeAssertionFault)
             else
               (let err' = Some (ClientAuthError (cfg client)) in Inr (err, client, tr')))
      else Inr (err, client, tr))"

definition Close :: "env \<Rightarrow> Client \<Rightarrow> event list \<Rightarrow> error option \<times> Client \<times> event list" where
  "Close e client tr =
     (let client = client\<lparr>uid := 0, auth := False\<rparr>;
          err = None;
          (err, tr) = (case common client of
                         None \<Rightarrow> (err, tr)
                       | Some h \<Rightarrow> (xmlrpc_Close e tr h, tr @ [RpcClose h]));
          (err, tr) = (case (err, object client) of
                         (None, Some h) \<Rightarrow> (xmlrpc_Close e tr h, tr @ [RpcClose h])
                       | _ \<Rightarrow> (err, tr))
      in (err, client, tr))"

definition ExecuteKw ::
  "env \<Rightarrow> Client \<Rightarrow> event list \<Rightarrow> string \<Rightarrow> string \<Rightarrow> Args \<Rightarrow> (string \<times> val) list list
     \<Rightarrow> fault + ((val \<times> error option) \<times> event list)" where
  "ExecuteKw e client tr method model args ctx =
     (let err = None;
          result = VNil;
          params = getArgs client;
          params = params @ [VString model, VString method, VArgs args];
          (params, err) =
            (if length ctx = 1 then (params @ [VMap (ctx ! 0)], err)
             else if length ctx \<ge> 1 then (params, Some InvalidContextError)
             else (params, err))
      in if err = None then
           (if isAuthenticated client then objectCall e client tr ''execute_kw'' params
            else Inr ((result, Some (ClientAuthError (cfg client))), tr))
         else Inr ((result, err), tr))"

text \<open>
  The loop \<open>for i, r := range response.([]interface{}) { result[i] = r.(int64) }\<close> of
  \<open>Search\<close>, from index \<open>i\<close> on.
\<close>

fun coerce_loop :: "nat \<Rightarrow> val list \<Rightarrow> 64 word list \<Rightarrow> fault + 64 word list" where
  "coerce_loop i [] result = Inr result"
| "coerce_loop i (r # rs) result =
     (case r of
        VInt64 n \<Rightarrow> coerce_loop (Suc i) rs (result[i := n])
      | _ \<Rightarrow> Inl TypeAssertionFault)"

definition Search ::
  "env \<Rightarrow> Client \<Rightarrow> event list \<Rightarrow> string \<Rightarrow> Domain \<Rightarrow> (string \<times> val) list list
     \<Rightarrow> fault + ((64 word list \<times> error option) \<times> event list)" where
  "Search e client tr model domain ctx =
     (let result = [];
          args = foldl (\<lambda>args clause. args @ [clause]) [] domain
      in case ExecuteKw e client tr ''search'' model args ctx of
           Inl f \<Rightarrow> Inl f
         | Inr ((response, err), tr') \<Rightarrow>
             if err = None then
               (case response of
                  VList rs \<Rightarrow>
                    (case coerce_loop 0 rs (replicate (length rs) 0) of
                       Inl f \<Rightarrow> Inl f
                     | Inr result \<Rightarrow> Inr ((result, err), tr'))
                | _ \<Rightarrow> Inl TypeAssertionFault)
             else Inr ((result, err), tr'))"

text \<open>\<open>NewClient\<close> returns a \<open>*Client\<close>, nil being \<open>None\<close>.\<close>

definition NewClient ::
  "env \<Rightarrow> ClientConfig \<Rightarrow> event list \<Rightarrow> fault + ((Client option \<times> error option) \<times> event list)" where
  "NewClient e config tr =
     (let err = (None :: error option);
          client = (None :: Client option)
      in if IsValid config then
           (let (common', err) = xmlrpc_NewClient e (Url config @ ''/xmlrpc/2/common'');
                (object', err) =
                  (if err = None then xmlrpc_NewClient e (Url config @ ''/xmlrpc/2/object'')
                   else (None, err))
            in if err = None then
                 (case Authenticate e
                         \<lparr>cfg = config, uid = 0, auth = False, common = common', object = object'\<rparr>
                         tr of
                    Inl f \<Rightarrow> Inl f
                  | Inr (err, client', tr') \<Rightarrow>
                      if err \<noteq> None then Inr ((None, err), tr')
                      else Inr ((Some client', err), tr'))
               else Inr ((client, err), tr))
         else Inr ((client, Some (InvalidConfigError config)), tr))"

section \<open>Concrete sessions\<close>

text \<open>
  The configuration of the repository's tests, a session before and after a successful
  authentication as user 2, an environment whose transport refuses every call, and one
  whose server answers every call with a given value.
\<close>

definition cfg0 :: ClientConfig where
  "cfg0 = \<lparr>Url = ''http://localhost:8069'', Db = ''test'',
            Username = ''admin'', Password = ''admin''\<rparr>"

definition common0 :: xmlrpc_client where
  "common0 = XmlrpcClient ''http://localhost:8069/xmlrpc/2/common''"

definition object0 :: xmlrpc_client where
  "object0 = XmlrpcClient ''http://localhost:8069/xmlrpc/2/object''"

definition client0 :: Client where
  "client0 = \<lparr>cfg = cfg0, uid = 0, auth = False, common = Some common0, object = Some object0\<rparr>"

definition client1 :: Client where
  "client1 = \<lparr>cfg = cfg0, uid = 2, auth = True, common = Some common0, object = Some object0\<rparr>"

definition env_refused :: env where
  "env_refused =
     \<lparr>xmlrpc_NewClient = (\<lambda>url. (Some (XmlrpcClient url), None)),
      xmlrpc_Call = (\<lambda>tr h method args. (VNil, Some (TransportError ''connection refused''))),
      xmlrpc_Close = (\<lambda>tr h. None)\<rparr>"

definition env_reply :: "val \<Rightarrow> env" where
  "env_reply v =
     \<lparr>xmlrpc_NewClient = (\<lambda>url. (Some (XmlrpcClient url), None)),
      xmlrpc_Call = (\<lambda>tr h method args. (v, None)),
      xmlrpc_Close = (\<lambda>tr h. None)\<rparr>"

definition auth_call0 :: event where
  "auth_call0 = RpcCall common0 ''authenticate''
     [VString ''test'', VString ''admin'', VString ''admin'', VString '''']"

definition domain0 :: Domain where
  "domain0 = NewDomain [Clause ''active'' ''='' (VInt 1)]"

definition search_call0 :: event where
  "search_call0 = RpcCall object0 ''execute_kw''
     [VString ''test'', VInt64 2, VString ''admin'', VString ''res.users'', VString ''search'',
      VArgs [VList [VList [VString ''active'', VString ''='', VInt 1]]]]"

definition two_contexts :: "(string \<times> val) list list" where
  "two_contexts = [[(''lang'', VString ''en_US'')], [(''tz'', VString ''UTC'')]]"

definition one_context :: "(string \<times> val) list list" where
  "one_context = [[(''lang'', VString ''en_US'')]]"

section \<open>Domain construction\<close>

text \<open>
  C3 (as amended). \<open>NewDomain(e1, ..., en)\<close> returns a Domain of exactly one element, and
  that element is the sequence of the n expressions, in order: one level of nesting is
  added around the expressions.
\<close>

theorem NewDomain_wraps_once:
  "NewDomain es = [VList es] \<and> length (NewDomain es) = 1 \<and> NewDomain es ! 0 = VList es"
  by (simp add: NewDomain_def)

text \<open>
  C3 (as stated) fails: the domain built from an operator and two clauses has one element,
  not three, and is not the sequence of the three expressions.
\<close>

theorem NewDomain_not_flat:
  "NewDomain [VString OpOR, Clause ''active'' ''='' (VInt 1), Clause ''login'' ''='' (VString ''John'')]
     \<noteq> [VString OpOR, Clause ''active'' ''='' (VInt 1), Clause ''login'' ''='' (VString ''John'')]
   \<and> length (NewDomain [VString OpOR, Clause ''active'' ''='' (VInt 1),
                        Clause ''login'' ''='' (VString ''John'')]) \<noteq> 3"
  by (simp add: NewDomain_def)

section \<open>Argument assembly\<close>

text \<open>
  C4. The credential prefix is \<open>{db, username, password, ""}\<close>, four elements in that
  order, when the session is not authenticated, and \<open>{db, uid, password}\<close>, three elements
  in that order, when it is.
\<close>

theorem getArgs_prefix:
  "(\<not> isAuthenticated c \<longrightarrow>
      getArgs c = [VString (Db (cfg c)), VString (Username (cfg c)),
                   VString (Password (cfg c)), VString ''''])
   \<and> (isAuthenticated c \<longrightarrow>
      getArgs c = [VString (Db (cfg c)), VInt64 (uid c), VString (Password (cfg c))])"
  by (simp add: getArgs_def)

text \<open>The two prefixes of C4 on the test configuration, before and after authentication.\<close>

theorem getArgs_prefix_witness:
  "\<not> isAuthenticated client0 \<and> isAuthenticated client1
   \<and> getArgs client0 = [VString ''test'', VString ''admin'', VString ''admin'', VString '''']
   \<and> getArgs client1 = [VString ''test'', VInt64 2, VString ''admin'']"
proof -
  have u: "\<not> isAuthenticated client0"
    by (simp add: isAuthenticated_def client0_def)
  have a: "isAuthenticated client1"
    by (simp add: isAuthenticated_def client1_def)
  from u a getArgs_prefix [of client0] getArgs_prefix [of client1] show ?thesis
    by (simp add: client0_def client1_def cfg0_def)
qed

section \<open>Closing a session\<close>

lemma Close_client: "Close e c tr = (err, c', tr') \<Longrightarrow> c' = c\<lparr>uid := 0, auth := False\<rparr>"
  by (auto simp: Close_def Let_def split: prod.splits option.splits)

text \<open>
  C9. After \<open>Close\<close> the stored uid is 0 and the auth flag is false, whatever the two
  transport handles answer to their own \<open>Close\<close>; nothing else of the client changes.
\<close>

theorem Close_resets_session:
  "(\<exists>err tr'. Close e c tr = (err, c\<lparr>uid := 0, auth := False\<rparr>, tr'))
   \<and> uid (fst (snd (Close e c tr))) = 0
   \<and> auth (fst (snd (Close e c tr))) = False
   \<and> isAuthenticated (fst (snd (Close e c tr))) = False"
  by (simp add: Close_def isAuthenticated_def Let_def split: prod.splits option.splits)

section \<open>Generic dispatch\<close>

lemma ExecuteKw_not_authenticated:
  "length ctx \<le> 1 \<Longrightarrow> \<not> isAuthenticated c \<Longrightarrow>
   ExecuteKw e c tr method model args ctx = Inr ((VNil, Some (ClientAuthError (cfg c))), tr)"
  by (simp add: ExecuteKw_def Let_def)

lemma ExecuteKw_dispatch:
  assumes "isAuthenticated c" and "length ctx \<le> 1" and "object c = Some h"
  shows "ExecuteKw e c tr method model args ctx
     = Inr (xmlrpc_Call e tr h ''execute_kw''
              (getArgs c @ [VString model, VString method, VArgs args] @ map VMap ctx),
            tr @ [RpcCall h ''execute_kw''
              (getArgs c @ [VString model, VString method, VArgs args] @ map VMap ctx)])"
proof (cases ctx)
  case Nil
  with assms show ?thesis
    by (simp add: ExecuteKw_def objectCall_def call_def)
next
  case (Cons m ms)
  with assms have "ms = []" by simp
  with Cons assms show ?thesis
    by (simp add: ExecuteKw_def objectCall_def call_def)
qed

text \<open>
  C5. On a session that is not authenticated, \<open>ExecuteKw\<close> with at most one context
  returns a nil result and the authentication error, and the trace is unchanged: nothing
  is dispatched. A session on which \<open>Close\<close> has been called is such a session.
\<close>

theorem ExecuteKw_unauthenticated:
  assumes "length ctx \<le> 1"
  shows "(\<not> isAuthenticated c \<longrightarrow>
            ExecuteKw e c tr method model args ctx
              = Inr ((VNil, Some (ClientAuthError (cfg c))), tr))
         \<and> (\<forall>err c' tr'. Close e c tr = (err, c', tr') \<longrightarrow>
            ExecuteKw e c' tr' method model args ctx
              = Inr ((VNil, Some (ClientAuthError (cfg c))), tr'))"
proof (intro conjI allI impI)
  assume "\<not> isAuthenticated c"
  with assms show "ExecuteKw e c tr method model args ctx
      = Inr ((VNil, Some (ClientAuthError (cfg c))), tr)"
    by (rule ExecuteKw_not_authenticated)
next
  fix err c' tr'
  assume "Close e c tr = (err, c', tr')"
  then have c': "c' = c\<lparr>uid := 0, auth := False\<rparr>"
    by (rule Close_client)
  then have "\<not> isAuthenticated c'"
    by (simp add: isAuthenticated_def)
  with assms have "ExecuteKw e c' tr' method model args ctx
      = Inr ((VNil, Some (ClientAuthError (cfg c'))), tr')"
    by (rule ExecuteKw_not_authenticated)
  with c' show "ExecuteKw e c' tr' method model args ctx
      = Inr ((VNil, Some (ClientAuthError (cfg c))), tr')"
    by simp
qed

text \<open>
  C5 on the test configuration: a \<open>read\<close> with one context before authentication, and the
  same call after the authenticated session has been closed.
\<close>

theorem ExecuteKw_unauthenticated_witness:
  "length one_context \<le> 1 \<and> \<not> isAuthenticated client0
   \<and> ExecuteKw (env_reply (VInt64 5)) client0 [] ''read'' ''res.users'' [VList [VInt64 2]]
        one_context
      = Inr ((VNil, Some (ClientAuthError cfg0)), [])
   \<and> Close (env_reply (VInt64 5)) client1 [] = (None, client0, [RpcClose common0, RpcClose object0])
   \<and> ExecuteKw (env_reply (VInt64 5)) client0 [RpcClose common0, RpcClose object0]
        ''read'' ''res.users'' [VList [VInt64 2]] one_context
      = Inr ((VNil, Some (ClientAuthError cfg0)), [RpcClose common0, RpcClose object0])"
proof -
  have h: "length one_context \<le> 1"
    by (simp add: one_context_def)
  have u: "\<not> isAuthenticated client0"
    by (simp add: isAuthenticated_def client0_def)
  have cl: "Close (env_reply (VInt64 5)) client1 []
      = (None, client0, [RpcClose common0, RpcClose object0])"
    by (simp add: Close_def client1_def client0_def env_reply_def)
  have c0: "cfg client0 = cfg0" and c1: "cfg client1 = cfg0"
    by (simp_all add: client0_def client1_def)
  show ?thesis
    using h u cl c0 c1
      ExecuteKw_unauthenticated [OF h, of client0 "env_reply (VInt64 5)" "[]" "''read''"
        "''res.users''" "[VList [VInt64 2]]"]
      ExecuteKw_unauthenticated [OF h, of client1 "env_reply (VInt64 5)" "[]" "''read''"
        "''res.users''" "[VList [VInt64 2]]"]
    by simp
qed

text \<open>
  C6. With two or more context maps \<open>ExecuteKw\<close> returns the invalid-context error, and
  the trace is unchanged, whether the session is authenticated or not.
\<close>

theorem ExecuteKw_rejects_contexts:
  assumes "2 \<le> length ctx"
  shows "ExecuteKw e c tr method model args ctx = Inr ((VNil, Some InvalidContextError), tr)"
  using assms by (simp add: ExecuteKw_def Let_def)

text \<open>C6 with two contexts, on the authenticated and on the unauthenticated session.\<close>

theorem ExecuteKw_rejects_contexts_witness:
  "2 \<le> length two_contexts
   \<and> ExecuteKw (env_reply (VInt64 5)) client1 [] ''read'' ''res.users'' [] two_contexts
      = Inr ((VNil, Some InvalidContextError), [])
   \<and> ExecuteKw (env_reply (VInt64 5)) client0 [] ''read'' ''res.users'' [] two_contexts
      = Inr ((VNil, Some InvalidContextError), [])"
proof -
  have h: "2 \<le> length two_contexts"
    by (simp add: two_contexts_def)
  show ?thesis
    using h
      ExecuteKw_rejects_contexts [OF h, of "env_reply (VInt64 5)" client1 "[]" "''read''"
        "''res.users''" "[]"]
      ExecuteKw_rejects_contexts [OF h, of "env_reply (VInt64 5)" client0 "[]" "''read''"
        "''res.users''" "[]"]
    by simp
qed

section \<open>Authentication\<close>

text \<open>
  The error that \<open>Authenticate\<close> returns is nil on every path that returns: the only
  assignment of an error is to the variable declared by the inner \<open>if\<close>.
\<close>

lemma Authenticate_error_nil: "Authenticate e c tr = Inr (err, c', tr') \<Longrightarrow> err = None"
  by (auto simp: Authenticate_def Let_def split: if_splits sum.splits val.splits prod.splits)

text \<open>
  A decoded answer that is neither an \<open>int64\<close> nor the \<open>int\<close> zero, such as the boolean
  false, passes the test \<open>uid != 0\<close> and faults in the assertion \<open>uid.(int64)\<close>.
\<close>

lemma Authenticate_false_faults:
  "Authenticate (env_reply (VBool False)) client0 [] = Inl TypeAssertionFault"
  by (simp add: Authenticate_def commonCall_def call_def isAuthenticated_def
      client0_def env_reply_def)

text \<open>
  C7. On an authenticated session \<open>Authenticate\<close> returns nil, leaves the client as it is
  and leaves the trace as it is: no remote call is issued. In particular a second call,
  after a call that left the session authenticated, changes nothing.
\<close>

theorem Authenticate_idempotent:
  "(isAuthenticated c \<longrightarrow> Authenticate e c tr = Inr (None, c, tr))
   \<and> (Authenticate e c0 tr0 = Inr (err, c, tr) \<and> isAuthenticated c \<longrightarrow>
        Authenticate e c tr = Inr (None, c, tr))"
  by (simp add: Authenticate_def)

text \<open>
  C7 on the test configuration: the server answers user id 2, the session becomes
  authenticated, and a second call neither changes it nor extends the trace.
\<close>

theorem Authenticate_idempotent_witness:
  "isAuthenticated client1
   \<and> Authenticate (env_reply (VInt64 2)) client0 [] = Inr (None, client1, [auth_call0])
   \<and> Authenticate (env_reply (VInt64 2)) client1 [auth_call0] = Inr (None, client1, [auth_call0])
   \<and> Authenticate env_refused client1 [] = Inr (None, client1, [])"
proof -
  have a: "isAuthenticated client1"
    by (simp add: isAuthenticated_def client1_def)
  have f: "Authenticate (env_reply (VInt64 2)) client0 [] = Inr (None, client1, [auth_call0])"
    by (simp add: Authenticate_def commonCall_def call_def getArgs_def isAuthenticated_def
        client0_def client1_def cfg0_def env_reply_def auth_call0_def)
  show ?thesis
    using a f
      Authenticate_idempotent [of client1 "env_reply (VInt64 2)" "[auth_call0]" client0 "[]" None]
      Authenticate_idempotent [of client1 env_refused "[]" client0 "[]" None]
    by simp
qed

text \<open>
  C1 does not hold of the code. When the transport refuses the \<open>authenticate\<close> call,
  \<open>Authenticate\<close> returns a nil error (the session is left as it was); when the server
  answers the \<open>int64\<close> zero, it returns a nil error as well, and sets the auth flag.
\<close>

theorem Authenticate_failure_returns_nil:
  "Authenticate env_refused client0 [] = Inr (None, client0, [auth_call0])
   \<and> Authenticate (env_reply (VInt64 0)) client0 []
       = Inr (None, client0\<lparr>auth := True\<rparr>, [auth_call0])"
  by (simp add: Authenticate_def commonCall_def call_def getArgs_def isAuthenticated_def
      client0_def cfg0_def env_refused_def env_reply_def auth_call0_def)

section \<open>Search\<close>

lemma foldl_append_clauses: "foldl (\<lambda>args clause. args @ [clause]) acc d = acc @ d"
  by (induction d arbitrary: acc) simp_all

text \<open>
  The coercion loop writes the elements of the response, in order, over the positions
  \<open>i, i + 1, ...\<close> of the result.
\<close>

lemma coerce_loop_int64s:
  "i + length ids \<le> length result \<Longrightarrow>
   coerce_loop i (map VInt64 ids) result
     = Inr (take i result @ ids @ drop (i + length ids) result)"
proof (induction ids arbitrary: i result)
  case Nil
  then show ?case by simp
next
  case (Cons n ids)
  then have "coerce_loop (Suc i) (map VInt64 ids) (result[i := n])
     = Inr (take (Suc i) (result[i := n]) @ ids @ drop (Suc i + length ids) (result[i := n]))"
    by (intro Cons.IH) simp
  moreover from Cons.prems have "take (Suc i) (result[i := n]) = take i result @ [n]"
    by (simp add: take_Suc_conv_app_nth)
  ultimately show ?case by simp
qed

lemma coerce_loop_fault:
  "\<forall>ids. rs \<noteq> map VInt64 ids \<Longrightarrow> coerce_loop i rs result = Inl TypeAssertionFault"
proof (induction rs arbitrary: i result)
  case Nil
  then show ?case by simp
next
  case (Cons r rs)
  show ?case
  proof (cases r)
    case (VInt64 n)
    have "\<forall>ids. rs \<noteq> map VInt64 ids"
    proof (intro allI notI)
      fix ids assume eq: "rs = map VInt64 ids"
      from Cons.prems have "r # rs \<noteq> map VInt64 (n # ids)" by (rule spec)
      with eq VInt64 show False by simp
    qed
    then have "coerce_loop (Suc i) rs (result[i := n]) = Inl TypeAssertionFault"
      by (rule Cons.IH)
    with VInt64 show ?thesis by simp
  qed simp_all
qed

text \<open>
  C8. On an authenticated session whose \<open>execute_kw\<close> call for \<open>search\<close> is answered
  without error: when the response is a sequence of \<open>int64\<close> values, \<open>Search\<close> returns
  exactly these values, in the same order and number, and a nil error; when the response
  is not a sequence, or one of its elements is not an \<open>int64\<close>, \<open>Search\<close> does not return:
  it faults in a type assertion.
\<close>

theorem Search_coerces_response:
  assumes "isAuthenticated c" and "length ctx \<le> 1" and "object c = Some h"
    and "xmlrpc_Call e tr h ''execute_kw''
           (getArgs c @ [VString model, VString ''search'', VArgs domain] @ map VMap ctx)
         = (response, None)"
  shows "(response = VList (map VInt64 ids) \<longrightarrow>
            Search e c tr model domain ctx
              = Inr ((ids, None), tr @ [RpcCall h ''execute_kw''
                  (getArgs c @ [VString model, VString ''search'', VArgs domain] @ map VMap ctx)]))
         \<and> ((\<forall>ids'. response \<noteq> VList (map VInt64 ids')) \<longrightarrow>
            Search e c tr model domain ctx = Inl TypeAssertionFault)"
proof -
  have args: "foldl (\<lambda>args clause. args @ [clause]) [] domain = domain"
    by (simp add: foldl_append_clauses)
  have ex: "ExecuteKw e c tr ''search'' model domain ctx
     = Inr ((response, None), tr @ [RpcCall h ''execute_kw''
          (getArgs c @ [VString model, VString ''search'', VArgs domain] @ map VMap ctx)])"
    using assms by (simp add: ExecuteKw_dispatch)
  have ok: "Search e c tr model domain ctx
      = Inr ((ids, None), tr @ [RpcCall h ''execute_kw''
          (getArgs c @ [VString model, VString ''search'', VArgs domain] @ map VMap ctx)])"
    if "response = VList (map VInt64 ids)"
  proof -
    have "coerce_loop 0 (map VInt64 ids) (replicate (length ids) 0) = Inr ids"
      using coerce_loop_int64s [of 0 ids "replicate (length ids) 0"] by simp
    with that show ?thesis
      by (simp add: Search_def args ex)
  qed
  have bad: "Search e c tr model domain ctx = Inl TypeAssertionFault"
    if "\<forall>ids'. response \<noteq> VList (map VInt64 ids')"
  proof (cases response)
    case (VList rs)
    with that have "\<forall>ids. rs \<noteq> map VInt64 ids" by simp
    then have "coerce_loop 0 rs (replicate (length rs) 0) = Inl TypeAssertionFault"
      by (rule coerce_loop_fault)
    with VList show ?thesis
      by (simp add: Search_def args ex)
  qed (simp_all add: Search_def args ex)
  from ok bad show ?thesis by blast
qed

text \<open>
  C8 on the search of the repository's test: the ids 2 and 1 come back as they are; a
  string among the ids, or a boolean in place of the sequence, is a fault.
\<close>

theorem Search_coerces_response_witness:
  "isAuthenticated client1
   \<and> Search (env_reply (VList [VInt64 2, VInt64 1])) client1 [] ''res.users'' domain0 []
       = Inr (([2, 1], None), [search_call0])
   \<and> Search (env_reply (VList [VInt64 2, VString ''x''])) client1 [] ''res.users'' domain0 []
       = Inl TypeAssertionFault
   \<and> Search (env_reply (VBool False)) client1 [] ''res.users'' domain0 []
       = Inl TypeAssertionFault"
proof -
  have a: "isAuthenticated client1"
    by (simp add: isAuthenticated_def client1_def)
  have l: "length ([] :: (string \<times> val) list list) \<le> 1"
    by simp
  have h: "object client1 = Some object0"
    by (simp add: client1_def)
  have r: "xmlrpc_Call (env_reply v) [] object0 ''execute_kw''
             (getArgs client1 @ [VString ''res.users'', VString ''search'', VArgs domain0]
                @ map VMap [])
           = (v, None)" for v
    by (simp add: env_reply_def)
  have n1: "\<forall>ids'. VList [VInt64 2, VString ''x''] \<noteq> VList (map VInt64 ids')"
    by auto
  have n2: "\<forall>ids'. VBool False \<noteq> VList (map VInt64 ids')"
    by simp
  have g: "getArgs client1 = [VString ''test'', VInt64 2, VString ''admin'']"
    by (simp add: getArgs_def isAuthenticated_def client1_def cfg0_def)
  have d: "domain0 = [VList [VList [VString ''active'', VString ''='', VInt 1]]]"
    by (simp add: domain0_def NewDomain_def Clause_def)
  show ?thesis
    using a n1 n2
      Search_coerces_response [OF a l h r [of "VList [VInt64 2, VInt64 1]"], where ids = "[2, 1]"]
      Search_coerces_response [OF a l h r [of "VList [VInt64 2, VString ''x'']"], where ids = "[]"]
      Search_coerces_response [OF a l h r [of "VBool False"], where ids = "[]"]
    by (simp add: search_call0_def g d)
qed

section \<open>Construction\<close>

text \<open>
  The first two stages of \<open>NewClient\<close> do end in a nil client and an error: an invalid
  configuration, and an endpoint that cannot be opened.
\<close>

lemma NewClient_invalid_config:
  "\<not> IsValid config \<Longrightarrow>
   NewClient e config tr = Inr ((None, Some (InvalidConfigError config)), tr)"
  by (simp add: NewClient_def)

lemma NewClient_open_fails:
  assumes "IsValid config"
    and "xmlrpc_NewClient e (Url config @ ''/xmlrpc/2/common'') = (h, Some err)
         \<or> (xmlrpc_NewClient e (Url config @ ''/xmlrpc/2/common'') = (h, None)
            \<and> xmlrpc_NewClient e (Url config @ ''/xmlrpc/2/object'') = (h', Some err))"
  shows "NewClient e config tr = Inr ((None, Some err), tr)"
  using assms by (auto simp: NewClient_def)

text \<open>
  Once both endpoints are open, \<open>NewClient\<close> returns a client and a nil error whenever it
  returns, whatever the outcome of the authentication call.
\<close>

lemma NewClient_opened_returns_client:
  assumes "IsValid config"
    and "xmlrpc_NewClient e (Url config @ ''/xmlrpc/2/common'') = (h, None)"
    and "xmlrpc_NewClient e (Url config @ ''/xmlrpc/2/object'') = (h', None)"
    and "NewClient e config tr = Inr ((cl, err), tr')"
  shows "cl \<noteq> None \<and> err = None"
  using assms
  by (auto simp: NewClient_def split: sum.splits if_splits dest: Authenticate_error_nil)

text \<open>
  C2 does not hold of the code. With a valid configuration and both endpoints open, a
  refused \<open>authenticate\<close> call makes \<open>NewClient\<close> return a client that is not
  authenticated, and a nil error.
\<close>

theorem NewClient_refused_returns_client:
  "NewClient env_refused cfg0 [] = Inr ((Some client0, None), [auth_call0])
   \<and> \<not> isAuthenticated client0"
  by (simp add: NewClient_def Authenticate_def commonCall_def call_def getArgs_def
      isAuthenticated_def IsValid_def client0_def cfg0_def env_refused_def auth_call0_def
      common0_def object0_def)

text \<open>
  C10 does not hold of the code. When the server answers the \<open>authenticate\<close> call with
  the \<open>int64\<close> zero, \<open>NewClient\<close> returns a client whose auth flag is true and whose uid
  is zero: the test \<open>uid != 0\<close> compares the answer with the \<open>int\<close> zero, which an \<open>int64\<close>
  never equals.
\<close>

theorem NewClient_zero_uid_sets_auth:
  "NewClient (env_reply (VInt64 0)) cfg0 []
     = Inr ((Some (client0\<lparr>auth := True\<rparr>), None), [auth_call0])
   \<and> auth (client0\<lparr>auth := True\<rparr>) \<and> uid (client0\<lparr>auth := True\<rparr>) = 0"
  by (simp add: NewClient_def Authenticate_def commonCall_def call_def getArgs_def
      isAuthenticated_def IsValid_def client0_def cfg0_def env_reply_def auth_call0_def
      common0_def object0_def)

end
